theory Spec2Isabelle
  imports Main "HOL-Library.AList"
begin

section \<open>The host framework, as far as the scripts see it\<close>

text \<open>
  The scripts \<^verbatim>\<open>cors_config.py\<close> and \<^verbatim>\<open>setup_pos.py\<close> are sequences of calls into
  the Frappe document API and of reads and writes of JSON files. The embedding models a
  Python function as a state transformer over a \<open>world\<close> that returns either the
  exception it raised (\<open>Inl\<close>) or its value (\<open>Inr\<close>), together with the world it
  leaves behind; a \<^verbatim>\<open>try/except\<close> is the combinator \<open>try_except\<close>.

  The framework itself is not part of the repository. What it does is kept as general as
  the claims allow:
  \<^item> every call into the framework or the file system first consumes one entry of the
    script \<open>faults\<close>: \<open>Some e\<close> makes that call raise \<open>e\<close>, \<open>None\<close> (or an exhausted
    script) lets it proceed, so a statement about every world is a statement about every
    pattern of framework failures;
  \<^item> the name a record gets on insertion is the field \<open>naming\<close> of the world;
  \<^item> \<open>exn\<close> stands for the instances of Python's \<^verbatim>\<open>Exception\<close>;
  \<^item> \<^verbatim>\<open>print\<close>, \<^verbatim>\<open>frappe.log_error\<close> and \<^verbatim>\<open>frappe.db.rollback\<close> are taken to
    succeed, and what is printed is not part of the world.
\<close>

datatype exn = DuplicateEntryError | Exc string

datatype pyval =
    PNone
  | PBool bool
  | PInt int
  | PFloat int int
  | PStr string
  | PList "pyval list"
  | PDict "(string \<times> pyval) list"

text \<open>A file is absent, holds something that is not JSON (an opened and truncated file
  is that), or holds a JSON value.\<close>

datatype file_state = Absent | Garbage | Content pyval

record doc =
  doc_type :: string
  doc_name :: string
  doc_fields :: "(string \<times> pyval) list"

datatype call =
    CInsert string
  | CSave string string
  | CSubmit string
  | CSetValue string string string
  | CCommit
  | CRollback

record world =
  faults :: "exn option list"
  db :: "doc list"
  committed :: "doc list"
  calls :: "call list"
  naming :: "doc list \<Rightarrow> doc \<Rightarrow> string"
  rng :: "nat \<Rightarrow> nat"
  drawn :: nat
  files :: "string \<Rightarrow> file_state"
  site_path :: string
  bench_path :: string
  site_url :: string
  site :: string
  clock :: string
  local_conf :: "(string \<times> pyval) list option"

type_synonym 'a prog = "world \<Rightarrow> (exn + 'a) \<times> world"

definition return_p :: "'a \<Rightarrow> 'a prog" where
  "return_p x = (\<lambda>w. (Inr x, w))"

definition raise_p :: "exn \<Rightarrow> 'a prog" where
  "raise_p e = (\<lambda>w. (Inl e, w))"

definition bind_p :: "'a prog \<Rightarrow> ('a \<Rightarrow> 'b prog) \<Rightarrow> 'b prog" where
  "bind_p m f = (\<lambda>w. case m w of (Inl e, w') \<Rightarrow> (Inl e, w') | (Inr x, w') \<Rightarrow> f x w')"

definition then_p :: "unit prog \<Rightarrow> 'b prog \<Rightarrow> 'b prog" where
  "then_p m n = bind_p m (\<lambda>_. n)"

definition try_except :: "'a prog \<Rightarrow> (exn \<Rightarrow> 'a prog) \<Rightarrow> 'a prog" where
  "try_except m h = (\<lambda>w. case m w of (Inl e, w') \<Rightarrow> h e w' | (Inr x, w') \<Rightarrow> (Inr x, w'))"

definition modify_p :: "(world \<Rightarrow> world) \<Rightarrow> unit prog" where
  "modify_p f = (\<lambda>w. (Inr (), f w))"

definition read_p :: "(world \<Rightarrow> 'a) \<Rightarrow> 'a prog" where
  "read_p f = (\<lambda>w. (Inr (f w), w))"

text \<open>The entry point of every framework and file-system call.\<close>

definition next_fault :: "exn option list \<Rightarrow> exn option" where
  "next_fault fs = (case fs of Some e # rest \<Rightarrow> Some e | _ \<Rightarrow> None)"

definition fw_call :: "unit prog" where
  "fw_call = (\<lambda>w. case next_fault (faults w) of
       Some e \<Rightarrow> (Inl e, w\<lparr>faults := tl (faults w)\<rparr>)
     | None \<Rightarrow> (Inr (), w\<lparr>faults := tl (faults w)\<rparr>))"

text \<open>The first \<open>n\<close> entries of a fault script let their calls proceed.\<close>

definition no_fault :: "nat \<Rightarrow> exn option list \<Rightarrow> bool" where
  "no_fault n fs = list_all (\<lambda>x. x = None) (take n fs)"

definition print_p :: "string \<Rightarrow> unit prog" where
  "print_p msg = return_p ()"

subsection \<open>Files and JSON\<close>

definition get_site_path :: "string \<Rightarrow> string prog" where
  "get_site_path fname = then_p fw_call (read_p (\<lambda>w. site_path w @ ''/'' @ fname))"

definition os_path_exists :: "string \<Rightarrow> bool prog" where
  "os_path_exists path = read_p (\<lambda>w. files w path \<noteq> Absent)"

text \<open>\<^verbatim>\<open>with open(path, 'r') as f: config = json.load(f)\<close>\<close>

definition json_load_file :: "string \<Rightarrow> pyval prog" where
  "json_load_file path =
     then_p fw_call
       (bind_p (read_p (\<lambda>w. files w path)) (\<lambda>fl.
          case fl of
            Absent \<Rightarrow> raise_p (Exc ''FileNotFoundError'')
          | Garbage \<Rightarrow> then_p fw_call (raise_p (Exc ''JSONDecodeError''))
          | Content j \<Rightarrow> then_p fw_call (return_p j)))"

text \<open>\<^verbatim>\<open>with open(path, 'w') as f: json.dump(config, f, indent=2)\<close>: opening truncates
  the file, dumping fills it.\<close>

definition json_dump_file :: "string \<Rightarrow> pyval \<Rightarrow> unit prog" where
  "json_dump_file path j =
     then_p fw_call
       (then_p (modify_p (\<lambda>w. w\<lparr>files := (files w)(path := Garbage)\<rparr>))
          (then_p fw_call
             (modify_p (\<lambda>w. w\<lparr>files := (files w)(path := Content j)\<rparr>))))"

text \<open>\<^verbatim>\<open>d[k] = v\<close>, \<^verbatim>\<open>k in d\<close> and \<^verbatim>\<open>d[k]\<close> on a value read from JSON; a dictionary keeps
  the position of a key it already has and appends a new one.\<close>

definition dict_setitem :: "pyval \<Rightarrow> string \<Rightarrow> pyval \<Rightarrow> pyval prog" where
  "dict_setitem d k v =
     (case d of PDict kvs \<Rightarrow> return_p (PDict (AList.update k v kvs))
      | _ \<Rightarrow> raise_p (Exc ''TypeError''))"


definition dict_getitem :: "pyval \<Rightarrow> string \<Rightarrow> pyval prog" where
  "dict_getitem d k =
     (case d of
        PDict kvs \<Rightarrow> (case map_of kvs k of Some v \<Rightarrow> return_p v | None \<Rightarrow> raise_p (Exc ''KeyError''))
      | _ \<Rightarrow> raise_p (Exc ''TypeError''))"


text \<open>\<^verbatim>\<open>frappe.local.conf.<key> = v\<close>\<close>

definition set_local_conf :: "string \<Rightarrow> pyval \<Rightarrow> unit prog" where
  "set_local_conf k v =
     then_p fw_call
       (bind_p (read_p local_conf) (\<lambda>c.
          case c of
            None \<Rightarrow> raise_p (Exc ''AttributeError'')
          | Some kvs \<Rightarrow> modify_p (\<lambda>w. w\<lparr>local_conf := Some (AList.update k v kvs)\<rparr>)))"

subsection \<open>The document store\<close>

definition has_doc :: "doc list \<Rightarrow> string \<Rightarrow> string \<Rightarrow> bool" where
  "has_doc ds dt n = list_ex (\<lambda>d. doc_type d = dt \<and> doc_name d = n) ds"

definition find_doc :: "doc list \<Rightarrow> string \<Rightarrow> string \<Rightarrow> doc option" where
  "find_doc ds dt n = find (\<lambda>d. doc_type d = dt \<and> doc_name d = n) ds"

definition put_doc :: "doc \<Rightarrow> doc list \<Rightarrow> doc list" where
  "put_doc d ds = map (\<lambda>x. if doc_type x = doc_type d \<and> doc_name x = doc_name d then d else x) ds"

definition getattr :: "doc \<Rightarrow> string \<Rightarrow> pyval" where
  "getattr d k =
     (if k = ''name'' then PStr (doc_name d)
      else case map_of (doc_fields d) k of Some v \<Rightarrow> v | None \<Rightarrow> PNone)"

definition setattr :: "doc \<Rightarrow> string \<Rightarrow> pyval \<Rightarrow> doc" where
  "setattr d k v = d\<lparr>doc_fields := AList.update k v (doc_fields d)\<rparr>"

definition hasattr :: "doc \<Rightarrow> string \<Rightarrow> bool" where
  "hasattr d k = (map_of (doc_fields d) k \<noteq> None)"

text \<open>\<^verbatim>\<open>frappe.db.exists(doctype, name)\<close>\<close>

definition db_exists :: "string \<Rightarrow> string \<Rightarrow> bool prog" where
  "db_exists dt n = then_p fw_call (read_p (\<lambda>w. has_doc (db w) dt n))"

text \<open>\<^verbatim>\<open>frappe.get_doc(doctype, name)\<close>\<close>

definition get_doc :: "string \<Rightarrow> string \<Rightarrow> doc prog" where
  "get_doc dt n =
     then_p fw_call
       (bind_p (read_p (\<lambda>w. find_doc (db w) dt n)) (\<lambda>r.
          case r of None \<Rightarrow> raise_p (Exc ''DoesNotExistError'') | Some d \<Rightarrow> return_p d))"

text \<open>\<^verbatim>\<open>doc.save(ignore_permissions=True)\<close>\<close>

definition save_doc :: "doc \<Rightarrow> unit prog" where
  "save_doc d =
     then_p (modify_p (\<lambda>w. w\<lparr>calls := calls w @ [CSave (doc_type d) (doc_name d)]\<rparr>))
       (then_p fw_call
          (bind_p (read_p (\<lambda>w. has_doc (db w) (doc_type d) (doc_name d))) (\<lambda>ex.
             if ex then modify_p (\<lambda>w. w\<lparr>db := put_doc d (db w)\<rparr>)
             else raise_p (Exc ''DoesNotExistError''))))"

text \<open>\<^verbatim>\<open>frappe.get_doc({...})\<close>: a new document, not yet stored, named only if the
  dictionary gives a \<open>name\<close>;
  \<^verbatim>\<open>doc.append(table, row)\<close> adds a row to one of its child tables.\<close>

definition new_doc :: "string \<Rightarrow> (string \<times> pyval) list \<Rightarrow> doc" where
  "new_doc dt kvs =
     \<lparr>doc_type = dt,
      doc_name = (case map_of kvs ''name'' of Some (PStr n) \<Rightarrow> n | _ \<Rightarrow> []),
      doc_fields = kvs\<rparr>"

definition rows_of :: "pyval \<Rightarrow> pyval list" where
  "rows_of v = (case v of PList rows \<Rightarrow> rows | _ \<Rightarrow> [])"

definition doc_append :: "doc \<Rightarrow> string \<Rightarrow> (string \<times> pyval) list \<Rightarrow> doc" where
  "doc_append d table row = setattr d table (PList (rows_of (getattr d table) @ [PDict row]))"

text \<open>Python's truth value of an object.\<close>

definition truthy :: "pyval \<Rightarrow> bool" where
  "truthy v =
     (case v of
        PNone \<Rightarrow> False
      | PBool b \<Rightarrow> b
      | PInt i \<Rightarrow> i \<noteq> 0
      | PFloat m e \<Rightarrow> m \<noteq> 0
      | PStr s \<Rightarrow> s \<noteq> []
      | PList xs \<Rightarrow> xs \<noteq> []
      | PDict kvs \<Rightarrow> kvs \<noteq> [])"

definition matches :: "(string \<times> pyval) list \<Rightarrow> doc \<Rightarrow> bool" where
  "matches filters d = list_all (\<lambda>(k, v). getattr d k = v) filters"

text \<open>\<^verbatim>\<open>frappe.get_all(doctype, limit=n)\<close>; the store lists its records in the order
  in which queries return them.\<close>

definition get_all :: "string \<Rightarrow> nat \<Rightarrow> doc list prog" where
  "get_all dt limit =
     then_p fw_call (read_p (\<lambda>w. take limit (filter (\<lambda>d. doc_type d = dt) (db w))))"

text \<open>\<^verbatim>\<open>frappe.db.get_value(doctype, filters, fieldname)\<close> and
  \<^verbatim>\<open>frappe.db.get_value(doctype, name, fieldname)\<close>\<close>

definition db_get_value :: "string \<Rightarrow> (string \<times> pyval) list \<Rightarrow> string \<Rightarrow> pyval prog" where
  "db_get_value dt filters fieldname =
     then_p fw_call
       (read_p (\<lambda>w. case find (\<lambda>d. doc_type d = dt \<and> matches filters d) (db w) of
                       None \<Rightarrow> PNone
                     | Some d \<Rightarrow> getattr d fieldname))"

definition db_get_value_by_name :: "string \<Rightarrow> string \<Rightarrow> string \<Rightarrow> pyval prog" where
  "db_get_value_by_name dt n fieldname =
     then_p fw_call
       (read_p (\<lambda>w. case find_doc (db w) dt n of None \<Rightarrow> PNone | Some d \<Rightarrow> getattr d fieldname))"

text \<open>\<^verbatim>\<open>frappe.db.exists("Has Role", {"parent": p, "role": r})\<close>: the rows of the
  child table \<open>roles\<close> of the stored user \<open>p\<close>.\<close>

definition db_exists_has_role :: "string \<Rightarrow> string \<Rightarrow> bool prog" where
  "db_exists_has_role parent role_name =
     then_p fw_call
       (read_p (\<lambda>w. case find_doc (db w) ''User'' parent of
                       None \<Rightarrow> False
                     | Some u \<Rightarrow>
                         list_ex (\<lambda>row. case row of
                                     PDict kvs \<Rightarrow> map_of kvs ''role'' = Some (PStr role_name)
                                   | _ \<Rightarrow> False)
                           (rows_of (getattr u ''roles''))))"

text \<open>\<^verbatim>\<open>doc.insert(ignore_permissions=True)\<close>: the framework names the document and
  refuses a name that its doctype already has.\<close>

definition insert_doc :: "doc \<Rightarrow> doc prog" where
  "insert_doc d =
     then_p (modify_p (\<lambda>w. w\<lparr>calls := calls w @ [CInsert (doc_type d)]\<rparr>))
       (then_p fw_call
          (bind_p (read_p (\<lambda>w. naming w (db w) d)) (\<lambda>n.
           bind_p (read_p (\<lambda>w. has_doc (db w) (doc_type d) n)) (\<lambda>ex.
           if ex then raise_p DuplicateEntryError
           else then_p (modify_p (\<lambda>w. w\<lparr>db := db w @ [d\<lparr>doc_name := n\<rparr>]\<rparr>))
                       (return_p (d\<lparr>doc_name := n\<rparr>))))))"

text \<open>\<^verbatim>\<open>doc.submit()\<close>\<close>

definition submit_doc :: "doc \<Rightarrow> unit prog" where
  "submit_doc d =
     then_p (modify_p (\<lambda>w. w\<lparr>calls := calls w @ [CSubmit (doc_type d)]\<rparr>))
       (then_p fw_call
          (modify_p (\<lambda>w. w\<lparr>db := put_doc (setattr d ''docstatus'' (PInt 1)) (db w)\<rparr>)))"

text \<open>\<^verbatim>\<open>frappe.db.set_value(doctype, name, fieldname, value)\<close>\<close>

definition db_set_value :: "string \<Rightarrow> string \<Rightarrow> string \<Rightarrow> pyval \<Rightarrow> unit prog" where
  "db_set_value dt n fieldname v =
     then_p (modify_p (\<lambda>w. w\<lparr>calls := calls w @ [CSetValue dt n fieldname]\<rparr>))
       (then_p fw_call
          (modify_p (\<lambda>w. w\<lparr>db := map (\<lambda>x. if doc_type x = dt \<and> doc_name x = n
                                             then setattr x fieldname v else x) (db w)\<rparr>)))"

text \<open>\<^verbatim>\<open>frappe.db.commit()\<close> and \<^verbatim>\<open>frappe.db.rollback()\<close>\<close>

definition db_commit :: "unit prog" where
  "db_commit =
     then_p (modify_p (\<lambda>w. w\<lparr>calls := calls w @ [CCommit]\<rparr>))
       (then_p fw_call (modify_p (\<lambda>w. w\<lparr>committed := db w\<rparr>)))"

definition db_rollback :: "unit prog" where
  "db_rollback = modify_p (\<lambda>w. w\<lparr>calls := calls w @ [CRollback], db := committed w\<rparr>)"

text \<open>\<^verbatim>\<open>frappe.utils.get_url()\<close> and \<^verbatim>\<open>frappe.utils.get_bench_path()\<close>\<close>

definition get_url :: "string prog" where
  "get_url = then_p fw_call (read_p site_url)"

definition get_bench_path :: "string prog" where
  "get_bench_path = then_p fw_call (read_p bench_path)"

text \<open>\<^verbatim>\<open>secrets.choice(seq)\<close>: the next draw of the system's random source, reduced
  to an index of the sequence.\<close>

definition secrets_choice :: "'a list \<Rightarrow> 'a prog" where
  "secrets_choice xs =
     (if xs = [] then raise_p (Exc ''IndexError'')
      else bind_p (read_p (\<lambda>w. rng w (drawn w) mod length xs)) (\<lambda>i.
           then_p (modify_p (\<lambda>w. w\<lparr>drawn := Suc (drawn w)\<rparr>))
                  (return_p (xs ! i))))"

section \<open>cors\_config.py\<close>





definition api_settings_dict :: "int \<Rightarrow> int \<Rightarrow> pyval" where
  "api_settings_dict rate_limit rate_limit_window =
     PDict [(''enable_api'', PInt 1),
           (''allow_api_key_authentication'', PInt 1),
           (''rate_limit'', PInt rate_limit),
           (''rate_limit_window'', PInt rate_limit_window)]"

definition configure_api_settings :: "int \<Rightarrow> int \<Rightarrow> bool prog" where
  "configure_api_settings rate_limit rate_limit_window =
     then_p (print_p ''[API] Configuration des parametres API...'')
       (try_except
          (bind_p (get_site_path ''site_config.json'') (\<lambda>site_config_path.
           bind_p (os_path_exists site_config_path) (\<lambda>ex.
           then_p
             (if ex then
                bind_p (json_load_file site_config_path) (\<lambda>config.
                bind_p (dict_setitem config ''api_settings''
                          (api_settings_dict rate_limit rate_limit_window)) (\<lambda>config.
                then_p (json_dump_file site_config_path config)
                       (print_p ''[API] Rate limit'')))
              else return_p ())
          (then_p
             (try_except
                (bind_p (db_exists ''DocType'' ''System Settings'') (\<lambda>found.
                 if found then
                   bind_p (get_doc ''System Settings'' ''System Settings'') (\<lambda>system_settings.
                   if hasattr system_settings ''enable_api'' then
                     then_p (save_doc (setattr system_settings ''enable_api'' (PInt 1)))
                            (print_p ''[API] System Settings mis a jour'')
                   else return_p ())
                 else return_p ()))
                (\<lambda>e. print_p ''[API] Note: System Settings non modifie''))
          (then_p (print_p ''[API] Parametres API configures avec succes'')
                  (return_p True))))))
          (\<lambda>e. then_p (print_p ''[API] Erreur'') (return_p False)))"


section \<open>setup\_pos.py\<close>

definition POS_USER_EMAIL :: string where "POS_USER_EMAIL = ''pos_user@example.com''"
definition POS_USER_FIRST_NAME :: string where "POS_USER_FIRST_NAME = ''POS''"
definition POS_USER_LAST_NAME :: string where "POS_USER_LAST_NAME = ''User''"
definition POS_USER_PASSWORD :: string where "POS_USER_PASSWORD = ''pos_password_123''"
definition DEFAULT_WAREHOUSE :: string where "DEFAULT_WAREHOUSE = ''Main Store - MS''"
definition DEFAULT_PRICE_LIST :: string where "DEFAULT_PRICE_LIST = ''Standard Selling''"
definition DEFAULT_POS_PROFILE :: string where "DEFAULT_POS_PROFILE = ''Default POS Profile''"
definition DEFAULT_COMPANY :: string where "DEFAULT_COMPANY = ''My Company''"
definition DEFAULT_COMPANY_ABBR :: string where "DEFAULT_COMPANY_ABBR = ''MC''"
definition DEFAULT_CURRENCY :: string where "DEFAULT_CURRENCY = ''EUR''"
definition DEFAULT_CUSTOMER :: string where "DEFAULT_CUSTOMER = ''Walk-in Customer''"
definition INITIAL_STOCK_QTY :: int where "INITIAL_STOCK_QTY = 100"

record sample_item =
  item_code :: string
  item_name :: string
  rate :: int
  barcode :: string

definition SAMPLE_ITEMS :: "sample_item list" where
  "SAMPLE_ITEMS =
     [\<lparr>item_code = ''ITEM-001'', item_name = ''Produit Test 1'', rate = 100, barcode = ''1000000001''\<rparr>,
      \<lparr>item_code = ''ITEM-002'', item_name = ''Produit Test 2'', rate = 250, barcode = ''1000000002''\<rparr>,
      \<lparr>item_code = ''ITEM-003'', item_name = ''Produit Test 3'', rate = 50, barcode = ''1000000003''\<rparr>,
      \<lparr>item_code = ''ITEM-004'', item_name = ''Produit Test 4'', rate = 500, barcode = ''1000000004''\<rparr>,
      \<lparr>item_code = ''ITEM-005'', item_name = ''Produit Test 5'', rate = 75, barcode = ''1000000005''\<rparr>]"

subsection \<open>Utilities\<close>

definition ascii_lowercase :: string where "ascii_lowercase = ''abcdefghijklmnopqrstuvwxyz''"
definition ascii_uppercase :: string where "ascii_uppercase = ''ABCDEFGHIJKLMNOPQRSTUVWXYZ''"
definition ascii_letters :: string where "ascii_letters = ascii_lowercase @ ascii_uppercase"
definition digits :: string where "digits = ''0123456789''"

text \<open>The characters of \<^verbatim>\<open>string.ascii_letters + string.digits\<close>, by their codes.\<close>

definition is_ascii_alnum :: "char \<Rightarrow> bool" where
  "is_ascii_alnum c =
     (let n = (of_char c :: nat)
      in (48 \<le> n \<and> n \<le> 57) \<or> (65 \<le> n \<and> n \<le> 90) \<or> (97 \<le> n \<and> n \<le> 122))"

text \<open>\<^verbatim>\<open>''.join(secrets.choice(alphabet) for _ in range(n))\<close>\<close>

fun join_choices :: "string \<Rightarrow> nat \<Rightarrow> string prog" where
  "join_choices alphabet 0 = return_p []"
| "join_choices alphabet (Suc n) =
     bind_p (secrets_choice alphabet) (\<lambda>c.
     bind_p (join_choices alphabet n) (\<lambda>cs.
     return_p (c # cs)))"

definition generate_api_key :: "string prog" where
  "generate_api_key = join_choices (ascii_letters @ digits) 20"

definition generate_api_secret :: "string prog" where
  "generate_api_secret = join_choices (ascii_letters @ digits) 40"

text \<open>The three loggers print and hand the message to \<^verbatim>\<open>frappe.log_error\<close>.\<close>

definition log_info :: "string \<Rightarrow> unit prog" where
  "log_info message = print_p (''[INFO] '' @ message)"

definition log_error :: "string \<Rightarrow> unit prog" where
  "log_error message = print_p (''[ERROR] '' @ message)"

definition log_success :: "string \<Rightarrow> unit prog" where
  "log_success message = print_p (''[SUCCESS] '' @ message)"

text \<open>\<^verbatim>\<open>s.upper()\<close> on ASCII text, and \<^verbatim>\<open>s.split(sep)[0]\<close>.\<close>

definition upper_char :: "char \<Rightarrow> char" where
  "upper_char c =
     (let n = (of_char c :: nat) in if 97 \<le> n \<and> n \<le> 122 then char_of (n - 32) else c)"

definition py_upper :: "string \<Rightarrow> string" where
  "py_upper s = map upper_char s"

fun split_first :: "string \<Rightarrow> string \<Rightarrow> string" where
  "split_first sep [] = []"
| "split_first sep (c # cs) =
     (if take (length sep) (c # cs) = sep then [] else c # split_first sep cs)"

subsection \<open>create\_company\<close>

definition create_company :: "string prog" where
  "create_company =
     then_p (log_info ''Verification de la company...'')
       (try_except
          (bind_p (get_all ''Company'' 1) (\<lambda>existing_companies.
           if existing_companies \<noteq> [] then
             then_p (log_info ''Company existante trouvee'')
                    (return_p (doc_name (hd existing_companies)))
           else
             then_p (log_info ''Creation de la company...'')
            (bind_p (insert_doc (new_doc ''Company''
                       [(''company_name'', PStr DEFAULT_COMPANY),
                        (''abbr'', PStr DEFAULT_COMPANY_ABBR),
                        (''default_currency'', PStr DEFAULT_CURRENCY),
                        (''country'', PStr ''France''),
                        (''enable_perpetual_inventory'', PInt 1),
                        (''create_chart_of_accounts_based_on'', PStr ''Standard Template''),
                        (''chart_of_accounts'', PStr ''Plan Comptable General (France)'')]))
               (\<lambda>company.
             then_p db_commit
            (then_p (log_success ''Company creee avec succes'')
                    (return_p (doc_name company)))))))
          (\<lambda>e. if e = DuplicateEntryError then
                 then_p (log_info ''Company existe deja'') (return_p DEFAULT_COMPANY)
               else
                 then_p (log_error ''Erreur creation company'') (raise_p e)))"

subsection \<open>setup\_api\_access\<close>

definition setup_api_access :: "string \<Rightarrow> (pyval \<times> pyval) prog" where
  "setup_api_access user_email =
     then_p (log_info ''Configuration de l'acces API...'')
       (try_except
          (bind_p (get_doc ''User'' user_email) (\<lambda>user.
           bind_p (if \<not> truthy (getattr user ''api_key'') then
                     bind_p generate_api_key (\<lambda>api_key.
                     return_p (PStr api_key, setattr user ''api_key'' (PStr api_key)))
                   else return_p (getattr user ''api_key'', user)) (\<lambda>(api_key, user).
           bind_p generate_api_secret (\<lambda>api_secret.
           then_p (save_doc (setattr user ''api_secret'' (PStr api_secret)))
          (then_p db_commit
          (then_p (log_success ''API Key generee'')
                  (return_p (api_key, PStr api_secret))))))))
          (\<lambda>e. then_p (log_error ''Erreur configuration API'') (return_p (PNone, PNone))))"

subsection \<open>create\_pos\_user\<close>

definition required_roles :: "string list" where
  "required_roles = [''POS User'', ''Sales User'', ''Stock User'', ''Item Manager'']"

text \<open>The loop over the required roles, on the user document being built.\<close>

fun add_roles :: "string list \<Rightarrow> doc \<Rightarrow> doc prog" where
  "add_roles [] user = return_p user"
| "add_roles (role_name # rest) user =
     bind_p (db_exists ''Role'' role_name) (\<lambda>role_exists.
     then_p (if \<not> role_exists then
               then_p (log_info ''Creation du role...'')
                 (bind_p (insert_doc (new_doc ''Role'' [(''role_name'', PStr role_name)]))
                    (\<lambda>role. return_p ()))
             else return_p ())
    (bind_p (db_exists_has_role POS_USER_EMAIL role_name) (\<lambda>has_role.
     bind_p (if \<not> has_role then
               then_p (log_info ''Role ajoute a l'utilisateur'')
                      (return_p (doc_append user ''roles'' [(''role'', PStr role_name)]))
             else return_p user) (\<lambda>user.
     add_roles rest user))))"

definition create_pos_user :: "pyval prog" where
  "create_pos_user =
     then_p (log_info ''Verification de l'utilisateur POS...'')
       (try_except
          (bind_p (db_exists ''User'' POS_USER_EMAIL) (\<lambda>user_exists.
           bind_p (if user_exists then
                     then_p (log_info ''Utilisateur existe deja'')
                            (get_doc ''User'' POS_USER_EMAIL)
                   else
                     then_p (log_info ''Creation de l'utilisateur...'')
                    (bind_p (insert_doc (new_doc ''User''
                               [(''email'', PStr POS_USER_EMAIL),
                                (''first_name'', PStr POS_USER_FIRST_NAME),
                                (''last_name'', PStr POS_USER_LAST_NAME),
                                (''enabled'', PInt 1),
                                (''send_welcome_email'', PInt 0),
                                (''user_type'', PStr ''System User'')])) (\<lambda>user.
                     then_p (db_set_value ''User'' POS_USER_EMAIL ''new_password''
                               (PStr POS_USER_PASSWORD))
                    (then_p (log_success ''Utilisateur cree'')
                            (return_p user))))) (\<lambda>user.
           bind_p (add_roles required_roles user) (\<lambda>user.
           then_p (save_doc user)
          (bind_p (setup_api_access POS_USER_EMAIL) (\<lambda>(api_key, api_secret).
           then_p db_commit
          (then_p (log_success ''Utilisateur POS configure avec succes'')
                  (return_p (PDict
                     [(''email'', PStr POS_USER_EMAIL),
                      (''password'', PStr POS_USER_PASSWORD),
                      (''api_key'', api_key),
                      (''api_secret'', api_secret),
                      (''roles'', PList (map PStr required_roles))])))))))))
          (\<lambda>e. then_p (log_error ''Erreur creation utilisateur POS'') (raise_p e)))"

subsection \<open>create\_warehouse\<close>

definition warehouse_name_for :: "string \<Rightarrow> string" where
  "warehouse_name_for company_name =
     split_first '' - '' DEFAULT_WAREHOUSE @ '' - '' @ py_upper (take 2 company_name)"

definition create_warehouse :: "string \<Rightarrow> string prog" where
  "create_warehouse company_name =
     (let warehouse_name = warehouse_name_for company_name in
      then_p (log_info ''Verification de l'entrepot...'')
        (try_except
           (bind_p (db_exists ''Warehouse'' warehouse_name) (\<lambda>warehouse_exists.
            if warehouse_exists then
              then_p (log_info ''Entrepot existe deja'') (return_p warehouse_name)
            else
              bind_p (db_get_value ''Warehouse''
                        [(''company'', PStr company_name), (''is_group'', PInt 1)] ''name'')
                (\<lambda>parent_warehouse.
              bind_p (if \<not> truthy parent_warehouse then
                        (let parent_warehouse = ''All Warehouses - '' @ py_upper (take 2 company_name) in
                         bind_p (db_exists ''Warehouse'' parent_warehouse) (\<lambda>root_exists.
                         then_p (if \<not> root_exists then
                                   bind_p (insert_doc (new_doc ''Warehouse''
                                             [(''warehouse_name'', PStr ''All Warehouses''),
                                              (''company'', PStr company_name),
                                              (''is_group'', PInt 1)])) (\<lambda>root.
                                   log_info ''Entrepot racine cree'')
                                 else return_p ())
                                (return_p (PStr parent_warehouse))))
                      else return_p parent_warehouse) (\<lambda>parent_warehouse.
              then_p (log_info ''Creation de l'entrepot...'')
             (bind_p (insert_doc (new_doc ''Warehouse''
                        [(''warehouse_name'', PStr (split_first '' - '' DEFAULT_WAREHOUSE)),
                         (''company'', PStr company_name),
                         (''parent_warehouse'', parent_warehouse),
                         (''is_group'', PInt 0),
                         (''warehouse_type'', PStr ''Store'')])) (\<lambda>warehouse.
              then_p db_commit
             (then_p (log_success ''Entrepot cree avec succes'')
                     (return_p (doc_name warehouse)))))))))
           (\<lambda>e. if e = DuplicateEntryError then
                  then_p (log_info ''Entrepot existe deja'') (return_p warehouse_name)
                else
                  then_p (log_error ''Erreur creation entrepot'') (raise_p e))))"

subsection \<open>create\_price\_list\<close>

definition create_price_list :: "string prog" where
  "create_price_list =
     then_p (log_info ''Verification de la liste de prix...'')
       (try_except
          (bind_p (db_exists ''Price List'' DEFAULT_PRICE_LIST) (\<lambda>price_list_exists.
           if price_list_exists then
             then_p (log_info ''Liste de prix existe deja'') (return_p DEFAULT_PRICE_LIST)
           else
             then_p (log_info ''Creation de la liste de prix...'')
            (bind_p (insert_doc (new_doc ''Price List''
                       [(''price_list_name'', PStr DEFAULT_PRICE_LIST),
                        (''currency'', PStr DEFAULT_CURRENCY),
                        (''selling'', PInt 1),
                        (''buying'', PInt 0),
                        (''enabled'', PInt 1)])) (\<lambda>price_list.
             then_p db_commit
            (then_p (log_success ''Liste de prix creee'')
                    (return_p DEFAULT_PRICE_LIST))))))
          (\<lambda>e. if e = DuplicateEntryError then return_p DEFAULT_PRICE_LIST
               else then_p (log_error ''Erreur creation liste de prix'') (raise_p e)))"

subsection \<open>create\_pos\_profile\<close>

definition account_filters :: "string \<Rightarrow> string \<Rightarrow> (string \<times> pyval) list" where
  "account_filters company_name account_type =
     [(''company'', PStr company_name), (''account_type'', PStr account_type), (''is_group'', PInt 0)]"

definition create_pos_profile_try :: "string \<Rightarrow> string \<Rightarrow> string \<Rightarrow> pyval prog" where
  "create_pos_profile_try company_name warehouse_name price_list_name =
     bind_p (db_exists ''POS Profile'' DEFAULT_POS_PROFILE) (\<lambda>profile_exists.
     if profile_exists then
       then_p (log_info ''Profil POS existe deja'') (return_p (PStr DEFAULT_POS_PROFILE))
     else
       bind_p (db_get_value ''Account'' (account_filters company_name ''Expense Account'') ''name'')
         (\<lambda>write_off_account.
       bind_p (db_get_value ''Cost Center''
                 [(''company'', PStr company_name), (''is_group'', PInt 0)] ''name'')
         (\<lambda>write_off_cost_center.
       bind_p (db_get_value ''Account'' (account_filters company_name ''Income Account'') ''name'')
         (\<lambda>income_account.
       bind_p (db_get_value ''Account'' (account_filters company_name ''Expense Account'') ''name'')
         (\<lambda>expense_account.
       bind_p (db_get_value ''Account'' (account_filters company_name ''Cash'') ''name'')
         (\<lambda>cash_account.
       bind_p (if \<not> truthy cash_account then
                 db_get_value ''Account'' (account_filters company_name ''Bank'') ''name''
               else return_p cash_account) (\<lambda>cash_account.
       then_p (log_info ''Creation du profil POS...'')
         (let pos_profile = new_doc ''POS Profile''
                [(''name'', PStr DEFAULT_POS_PROFILE),
                 (''company'', PStr company_name),
                 (''warehouse'', PStr warehouse_name),
                 (''selling_price_list'', PStr price_list_name),
                 (''currency'', PStr DEFAULT_CURRENCY),
                 (''write_off_account'', write_off_account),
                 (''write_off_cost_center'', write_off_cost_center),
                 (''income_account'', income_account),
                 (''expense_account'', expense_account),
                 (''customer'', PStr DEFAULT_CUSTOMER),
                 (''disabled'', PInt 0)];
              pos_profile = (if truthy cash_account then
                               doc_append pos_profile ''payments''
                                 [(''mode_of_payment'', PStr ''Cash''),
                                  (''default'', PInt 1),
                                  (''account'', cash_account)]
                             else pos_profile);
              pos_profile = doc_append pos_profile ''applicable_for_users''
                              [(''user'', PStr POS_USER_EMAIL), (''default'', PInt 1)]
          in bind_p (insert_doc pos_profile) (\<lambda>pos_profile.
             then_p db_commit
            (then_p (log_success ''Profil POS cree avec succes'')
                    (return_p (PStr (doc_name pos_profile)))))))))))))"

definition create_pos_profile :: "string \<Rightarrow> string \<Rightarrow> string \<Rightarrow> pyval prog" where
  "create_pos_profile company_name warehouse_name price_list_name =
     then_p (log_info ''Verification du profil POS...'')
       (try_except
          (create_pos_profile_try company_name warehouse_name price_list_name)
          (\<lambda>e. if e = DuplicateEntryError then return_p (PStr DEFAULT_POS_PROFILE)
               else then_p (log_error ''Erreur creation profil POS'') (return_p PNone)))"

subsection \<open>create\_customer\<close>

definition create_customer :: "string prog" where
  "create_customer =
     then_p (log_info ''Verification du client...'')
       (try_except
          (bind_p (db_exists ''Customer'' DEFAULT_CUSTOMER) (\<lambda>customer_exists.
           if customer_exists then
             then_p (log_info ''Client existe deja'') (return_p DEFAULT_CUSTOMER)
           else
             then_p (log_info ''Creation du client...'')
            (bind_p (insert_doc (new_doc ''Customer''
                       [(''customer_name'', PStr DEFAULT_CUSTOMER),
                        (''customer_type'', PStr ''Individual''),
                        (''customer_group'', PStr ''Individual''),
                        (''territory'', PStr ''All Territories'')])) (\<lambda>customer.
             then_p db_commit
            (then_p (log_success ''Client cree avec succes'')
                    (return_p (doc_name customer)))))))
          (\<lambda>e. if e = DuplicateEntryError then return_p DEFAULT_CUSTOMER
               else then_p (log_error ''Erreur creation client'') (raise_p e)))"

subsection \<open>create\_sample\_items and create\_stock\_entry\<close>

definition create_stock_entry :: "string \<Rightarrow> string \<Rightarrow> int \<Rightarrow> string \<Rightarrow> unit prog" where
  "create_stock_entry code warehouse qty company =
     try_except
       (bind_p (db_get_value_by_name ''Item'' code ''valuation_rate'') (\<lambda>valuation_rate.
        bind_p (insert_doc (new_doc ''Stock Entry''
                  [(''stock_entry_type'', PStr ''Material Receipt''),
                   (''company'', PStr company),
                   (''items'', PList [PDict
                      [(''item_code'', PStr code),
                       (''t_warehouse'', PStr warehouse),
                       (''qty'', PInt qty),
                       (''basic_rate'',
                          if truthy valuation_rate then valuation_rate else PInt 100)]])]))
          (\<lambda>stock_entry.
        submit_doc stock_entry)))
       (\<lambda>e. log_error ''Erreur creation stock entry'')"

definition existing_item_entry :: "sample_item \<Rightarrow> pyval" where
  "existing_item_entry item_data =
     PDict [(''item_code'', PStr (item_code item_data)),
            (''barcode'', PStr (barcode item_data)),
            (''exists'', PBool True)]"

definition created_item_entry :: "sample_item \<Rightarrow> pyval" where
  "created_item_entry item_data =
     PDict [(''item_code'', PStr (item_code item_data)),
            (''barcode'', PStr (barcode item_data)),
            (''rate'', PInt (rate item_data)),
            (''exists'', PBool False)]"

text \<open>One round of the loop over \<open>SAMPLE_ITEMS\<close>: the body of its \<^verbatim>\<open>try\<close>, which
  returns the list \<open>created_items\<close> as it leaves it.\<close>

definition create_sample_item_try ::
  "string \<Rightarrow> string \<Rightarrow> string \<Rightarrow> sample_item \<Rightarrow> pyval list \<Rightarrow> pyval list prog" where
  "create_sample_item_try company_name warehouse_name price_list_name item_data created_items =
     bind_p (db_exists ''Item'' (item_code item_data)) (\<lambda>item_exists.
     if item_exists then
       then_p (log_info ''Produit existe deja'')
              (return_p (created_items @ [existing_item_entry item_data]))
     else
       then_p (log_info ''Creation du produit...'')
         (let item = new_doc ''Item''
                [(''item_code'', PStr (item_code item_data)),
                 (''item_name'', PStr (item_name item_data)),
                 (''item_group'', PStr ''Products''),
                 (''stock_uom'', PStr ''Nos''),
                 (''is_stock_item'', PInt 1),
                 (''is_sales_item'', PInt 1),
                 (''is_purchase_item'', PInt 1),
                 (''include_item_in_manufacturing'', PInt 0),
                 (''standard_rate'', PInt (rate item_data)),
                 (''valuation_rate'', PFloat (rate item_data * 7) (- 1)),
                 (''opening_stock'', PInt INITIAL_STOCK_QTY),
                 (''description'', PStr (''Produit de test: '' @ item_name item_data))];
              item = doc_append item ''barcodes''
                       [(''barcode'', PStr (barcode item_data)), (''barcode_type'', PStr ''EAN'')]
          in bind_p (insert_doc item) (\<lambda>item.
             bind_p (insert_doc (new_doc ''Item Price''
                       [(''item_code'', PStr (item_code item_data)),
                        (''price_list'', PStr price_list_name),
                        (''price_list_rate'', PInt (rate item_data)),
                        (''currency'', PStr DEFAULT_CURRENCY),
                        (''selling'', PInt 1)])) (\<lambda>item_price.
             then_p (try_except
                       (create_stock_entry (item_code item_data) warehouse_name
                          INITIAL_STOCK_QTY company_name)
                       (\<lambda>stock_error. log_error ''Erreur stock''))
            (then_p (log_success ''Produit cree avec stock initial'')
                    (return_p (created_items @ [created_item_entry item_data])))))))"

fun create_sample_items_loop ::
  "string \<Rightarrow> string \<Rightarrow> string \<Rightarrow> sample_item list \<Rightarrow> pyval list \<Rightarrow> pyval list prog" where
  "create_sample_items_loop company_name warehouse_name price_list_name [] created_items =
     return_p created_items"
| "create_sample_items_loop company_name warehouse_name price_list_name (item_data # rest)
     created_items =
     bind_p (try_except
               (create_sample_item_try company_name warehouse_name price_list_name item_data
                  created_items)
               (\<lambda>e. if e = DuplicateEntryError then
                      then_p (log_info ''Produit existe deja'')
                             (return_p (created_items @ [existing_item_entry item_data]))
                    else
                      then_p (log_error ''Erreur creation produit'') (return_p created_items)))
       (\<lambda>created_items.
     create_sample_items_loop company_name warehouse_name price_list_name rest created_items)"

definition create_sample_items :: "string \<Rightarrow> string \<Rightarrow> string \<Rightarrow> pyval list prog" where
  "create_sample_items company_name warehouse_name price_list_name =
     then_p (log_info ''Creation des produits d'exemple...'')
    (bind_p (db_exists ''Item Group'' ''Products'') (\<lambda>group_exists.
     then_p (if \<not> group_exists then
               try_except
                 (bind_p (insert_doc (new_doc ''Item Group''
                            [(''item_group_name'', PStr ''Products''),
                             (''parent_item_group'', PStr ''All Item Groups'')])) (\<lambda>item_group.
                  log_info ''Groupe Products cree''))
                 (\<lambda>e. return_p ())
             else return_p ())
    (bind_p (create_sample_items_loop company_name warehouse_name price_list_name SAMPLE_ITEMS [])
       (\<lambda>created_items.
     then_p db_commit
    (then_p (log_success ''produits configures'')
            (return_p created_items))))))"

subsection \<open>save\_credentials\<close>

text \<open>The dictionary is changed in place, so the caller sees the date that was set even
  when writing the file fails afterwards: the function returns the dictionary as it
  leaves it. The handler of its single \<^verbatim>\<open>try\<close> cannot fail, so it is applied here
  before and after the date is set.\<close>

definition save_credentials_failed :: "pyval \<Rightarrow> pyval prog" where
  "save_credentials_failed credentials_data =
     then_p (log_error ''Erreur sauvegarde credentials'')
    (then_p (print_p ''CREDENTIALS (a sauvegarder manuellement):'')
            (return_p credentials_data))"

definition save_credentials :: "pyval \<Rightarrow> pyval prog" where
  "save_credentials credentials_data =
     try_except
       (bind_p get_bench_path (\<lambda>bench.
        bind_p (read_p clock) (\<lambda>now.
        bind_p (dict_setitem credentials_data ''generated_date'' (PStr now)) (\<lambda>credentials_data.
        try_except
          (then_p (json_dump_file (bench @ ''/pos_credentials.json'') credentials_data)
          (then_p (log_success ''Credentials sauvegardes'')
                  (return_p credentials_data)))
          (\<lambda>e. save_credentials_failed credentials_data)))))
       (\<lambda>e. save_credentials_failed credentials_data)"

subsection \<open>main\<close>

text \<open>\<^verbatim>\<open>v[:n]\<close>\<close>

definition py_prefix :: "pyval \<Rightarrow> nat \<Rightarrow> pyval prog" where
  "py_prefix v n =
     (case v of
        PStr s \<Rightarrow> return_p (PStr (take n s))
      | PList xs \<Rightarrow> return_p (PList (take n xs))
      | _ \<Rightarrow> raise_p (Exc ''TypeError''))"

definition credentials_dict ::
  "pyval \<Rightarrow> string \<Rightarrow> string \<Rightarrow> pyval \<Rightarrow> string \<Rightarrow> string \<Rightarrow> string \<Rightarrow> string \<Rightarrow> pyval list
     \<Rightarrow> pyval" where
  "credentials_dict pos_user url site_name pos_profile_name warehouse_name price_list_name
     company_name customer_name sample_items =
     PDict [(''generated_date'', PStr []),
            (''pos_user'', pos_user),
            (''server'', PDict [(''url'', PStr url), (''site_name'', PStr site_name)]),
            (''pos_profile'', PDict
               [(''name'', pos_profile_name),
                (''warehouse'', PStr warehouse_name),
                (''price_list'', PStr price_list_name),
                (''company'', PStr company_name)]),
            (''default_customer'', PStr customer_name),
            (''sample_items'', PList sample_items)]"

text \<open>The body of the \<^verbatim>\<open>try\<close> of \<open>main\<close>: the eight steps and the final summary,
  whose text takes the first ten characters of the API secret.\<close>

definition main_try :: "pyval prog" where
  "main_try =
     bind_p create_company (\<lambda>company_name.
     then_p (print_p ''[1/8] Company'')
    (bind_p create_pos_user (\<lambda>pos_user.
     then_p (print_p ''[2/8] Utilisateur POS'')
    (bind_p (create_warehouse company_name) (\<lambda>warehouse_name.
     then_p (print_p ''[3/8] Entrepot'')
    (bind_p create_price_list (\<lambda>price_list_name.
     then_p (print_p ''[4/8] Liste de prix'')
    (bind_p create_customer (\<lambda>customer_name.
     then_p (print_p ''[5/8] Client'')
    (bind_p (create_pos_profile company_name warehouse_name price_list_name)
       (\<lambda>pos_profile_name.
     then_p (print_p ''[6/8] Profil POS'')
    (bind_p (create_sample_items company_name warehouse_name price_list_name) (\<lambda>sample_items.
     then_p (print_p ''[7/8] Produits'')
    (bind_p get_url (\<lambda>url.
     bind_p (read_p site) (\<lambda>site_name.
     bind_p (save_credentials
               (credentials_dict pos_user url site_name pos_profile_name warehouse_name
                  price_list_name company_name customer_name sample_items)) (\<lambda>credentials.
     then_p (print_p ''[8/8] Credentials sauvegardes'')
    (bind_p get_url (\<lambda>url.
     bind_p (dict_getitem pos_user ''api_secret'') (\<lambda>api_secret.
     bind_p (py_prefix api_secret 10) (\<lambda>shown.
     then_p (print_p ''CONFIGURATION TERMINEE AVEC SUCCES!'')
            (return_p credentials))))))))))))))))))))))"

definition main :: "pyval prog" where
  "main =
     then_p (print_p ''CONFIGURATION ERPNEXT POUR TAILPOS'')
       (try_except main_try
          (\<lambda>e. then_p (log_error ''Erreur fatale'')
               (then_p db_rollback
               (then_p (print_p ''[ERREUR] La configuration a echoue.'')
                       (raise_p e)))))"

section \<open>Outcomes of a program\<close>

text \<open>\<open>wp m N E w\<close>: run from \<open>w\<close>, the program \<open>m\<close> either returns a value and a
  world that satisfy \<open>N\<close>, or raises an exception in a world that satisfy \<open>E\<close>.\<close>

definition wp :: "'a prog \<Rightarrow> ('a \<Rightarrow> world \<Rightarrow> bool) \<Rightarrow> (exn \<Rightarrow> world \<Rightarrow> bool) \<Rightarrow> world \<Rightarrow> bool" where
  "wp m N E w = (case m w of (Inr x, w') \<Rightarrow> N x w' | (Inl e, w') \<Rightarrow> E e w')"



section \<open>A sample site\<close>

text \<open>A naming rule of the kind the framework applies: a warehouse is named after its
  company, a document that brings a name keeps it, the listed doctypes are named by
  one of their fields, and any other document gets a fresh serial name.\<close>

definition str_of :: "pyval \<Rightarrow> string" where
  "str_of v = (case v of PStr s \<Rightarrow> s | _ \<Rightarrow> [])"

definition naming_fields :: "(string \<times> string) list" where
  "naming_fields =
     [(''Company'', ''company_name''), (''User'', ''email''), (''Role'', ''role_name''),
      (''Price List'', ''price_list_name''), (''Customer'', ''customer_name''),
      (''Item'', ''item_code''), (''Item Group'', ''item_group_name'')]"

definition sample_naming :: "doc list \<Rightarrow> doc \<Rightarrow> string" where
  "sample_naming ds d =
     (if doc_type d = ''Warehouse'' then
        str_of (getattr d ''warehouse_name'') @ '' - '' @
        py_upper (take 2 (str_of (getattr d ''company'')))
      else if doc_name d \<noteq> [] then doc_name d
      else case map_of naming_fields (doc_type d) of
             Some f \<Rightarrow> str_of (getattr d f)
           | None \<Rightarrow> doc_type d @ ''-'' @ replicate (length ds) (CHR ''1''))"

definition sample_config :: "(string \<times> pyval) list" where
  "sample_config =
     [(''db_name'', PStr ''site1''),
      (''db_password'', PStr ''secret''),
      (''api_settings'', PDict [(''rate_limit'', PInt 5)])]"

definition sample_site :: world where
  "sample_site =
     \<lparr>faults = [], db = [], committed = [], calls = [], naming = sample_naming,
      rng = (\<lambda>i. 7 * i + 3), drawn = 0,
      files = (\<lambda>p. Absent)(''./site1/site_config.json'' := Content (PDict sample_config)),
      site_path = ''./site1'', bench_path = ''/home/frappe/frappe-bench'',
      site_url = ''http://localhost:8000'', site = ''site1'',
      clock = ''2025-01-17T10:00:00'', local_conf = None\<rparr>"

text \<open>The value found in a dictionary by following a path of keys.\<close>

fun dict_path :: "pyval \<Rightarrow> string list \<Rightarrow> pyval option" where
  "dict_path v [] = Some v"
| "dict_path (PDict kvs) (k # ks) =
     (case map_of kvs k of Some v \<Rightarrow> dict_path v ks | None \<Rightarrow> None)"
| "dict_path v (k # ks) = None"

text \<open>The doctype and name of every stored record, in order.\<close>

definition doc_keys :: "doc list \<Rightarrow> (string \<times> string) list" where
  "doc_keys ds = map (\<lambda>d. (doc_type d, doc_name d)) ds"

definition user_has_role :: "doc list \<Rightarrow> string \<Rightarrow> string \<Rightarrow> bool" where
  "user_has_role ds parent role_name =
     (case find_doc ds ''User'' parent of
        None \<Rightarrow> False
      | Some u \<Rightarrow>
          list_ex (\<lambda>row. case row of
                      PDict kvs \<Rightarrow> map_of kvs ''role'' = Some (PStr role_name)
                    | _ \<Rightarrow> False)
            (rows_of (getattr u ''roles'')))"

text \<open>Every record that \<open>main\<close> looks up is stored under the name its check uses: some
  company, the POS user with the four roles, the warehouse named after the first
  company, the price list, the customer, the POS profile, the item group and the five
  items.\<close>

definition already_seeded :: "doc list \<Rightarrow> bool" where
  "already_seeded ds =
     (filter (\<lambda>d. doc_type d = ''Company'') ds \<noteq> [] \<and>
      has_doc ds ''User'' POS_USER_EMAIL \<and>
      (\<forall>r \<in> set required_roles. has_doc ds ''Role'' r \<and> user_has_role ds POS_USER_EMAIL r) \<and>
      has_doc ds ''Warehouse''
        (warehouse_name_for (doc_name (hd (filter (\<lambda>d. doc_type d = ''Company'') ds)))) \<and>
      has_doc ds ''Price List'' DEFAULT_PRICE_LIST \<and>
      has_doc ds ''Customer'' DEFAULT_CUSTOMER \<and>
      has_doc ds ''POS Profile'' DEFAULT_POS_PROFILE \<and>
      has_doc ds ''Item Group'' ''Products'' \<and>
      (\<forall>i \<in> set SAMPLE_ITEMS. has_doc ds ''Item'' (item_code i)))"

text \<open>The string that \<open>n\<close> draws select from an alphabet, starting at draw \<open>d\<close>.\<close>

definition choices_of :: "(nat \<Rightarrow> nat) \<Rightarrow> nat \<Rightarrow> 'a list \<Rightarrow> nat \<Rightarrow> 'a list" where
  "choices_of r d xs n = map (\<lambda>i. xs ! (r (d + i) mod length xs)) [0..<n]"

text \<open>A site on which everything is seeded but the POS profile, and whose framework
  rejects the profile: the 27th framework call of a run of \<open>main\<close>, the insertion of
  the profile, raises.\<close>

definition stored :: "string \<Rightarrow> string \<Rightarrow> doc" where
  "stored dt n = \<lparr>doc_type = dt, doc_name = n, doc_fields = []\<rparr>"

definition seeded_db :: "doc list" where
  "seeded_db =
     [stored ''Company'' ''My Company'',
      \<lparr>doc_type = ''User'', doc_name = ''pos_user@example.com'',
       doc_fields = [(''api_key'', PStr ''dkryFMT07elszGNU18fm''),
                     (''roles'', PList (map (\<lambda>r. PDict [(''role'', PStr r)]) required_roles))]\<rparr>,
      stored ''Role'' ''POS User'', stored ''Role'' ''Sales User'',
      stored ''Role'' ''Stock User'', stored ''Role'' ''Item Manager'',
      stored ''Warehouse'' ''Main Store - MY'',
      stored ''Price List'' ''Standard Selling'',
      stored ''Customer'' ''Walk-in Customer'',
      stored ''Item Group'' ''Products'',
      stored ''Item'' ''ITEM-001'', stored ''Item'' ''ITEM-002'', stored ''Item'' ''ITEM-003'',
      stored ''Item'' ''ITEM-004'', stored ''Item'' ''ITEM-005'']"

definition profile_rejected_site :: world where
  "profile_rejected_site =
     sample_site\<lparr>db := seeded_db, committed := seeded_db,
       faults := replicate 26 None @ [Some (Exc ''MandatoryError'')]\<rparr>"

definition seeded_site :: world where
  "seeded_site =
     sample_site\<lparr>db := seeded_db @ [stored ''POS Profile'' ''Default POS Profile''],
       committed := seeded_db @ [stored ''POS Profile'' ''Default POS Profile'']\<rparr>"

text \<open>The world in which the handler of \<open>main\<close> raises again: after the rollback.\<close>

definition rolled_back :: "world \<Rightarrow> world" where
  "rolled_back w = w\<lparr>calls := calls w @ [CRollback], db := committed w\<rparr>"

text \<open>From \<open>w\<close> to \<open>w'\<close>, \<open>n\<close> framework calls were made, the calls \<open>cs\<close> were issued
  and the records \<open>ks\<close> were added, the POS user holds the roles it held, and nothing
  else that a later step reads has changed.\<close>

definition advanced :: "nat \<Rightarrow> call list \<Rightarrow> (string \<times> string) list \<Rightarrow> world \<Rightarrow> world \<Rightarrow> bool" where
  "advanced n cs ks w w' =
     (faults w' = drop n (faults w) \<and>
      calls w' = calls w @ cs \<and>
      doc_keys (db w') = doc_keys (db w) @ ks \<and>
      naming w' = naming w \<and>
      site_url w' = site_url w \<and>
      site w' = site w \<and>
      bench_path w' = bench_path w \<and>
      clock w' = clock w \<and>
      (\<forall>r. user_has_role (db w') POS_USER_EMAIL r = user_has_role (db w) POS_USER_EMAIL r))"

text \<open>The sample site when the database cannot be reached: the first framework call
  raises.\<close>

definition unreachable_site :: world where
  "unreachable_site = sample_site\<lparr>faults := [Some (Exc ''OperationalError'')]\<rparr>"

section \<open>Running programs\<close>

lemma return_p_app [simp]: "return_p x w = (Inr x, w)" by (simp add: return_p_def)
lemma raise_p_app [simp]: "raise_p e w = (Inl e, w)" by (simp add: raise_p_def)
lemma read_p_app [simp]: "read_p f w = (Inr (f w), w)" by (simp add: read_p_def)
lemma modify_p_app [simp]: "modify_p f w = (Inr (), f w)" by (simp add: modify_p_def)
lemma print_p_app [simp]: "print_p m w = (Inr (), w)" by (simp add: print_p_def)
lemma bind_p_app: "bind_p m f w = (case m w of (Inl e, w') \<Rightarrow> (Inl e, w') | (Inr x, w') \<Rightarrow> f x w')"
  by (simp add: bind_p_def)
lemma then_p_app: "then_p m n w = (case m w of (Inl e, w') \<Rightarrow> (Inl e, w') | (Inr x, w') \<Rightarrow> n w')"
  by (simp add: then_p_def bind_p_def)
lemma try_except_app: "try_except m h w = (case m w of (Inl e, w') \<Rightarrow> h e w' | (Inr x, w') \<Rightarrow> (Inr x, w'))"
  by (simp add: try_except_def)
lemmas run = bind_p_app then_p_app try_except_app


named_theorems wps

lemma wp_return [wps]: "wp (return_p x) N E w = N x w" by (simp add: wp_def)
lemma wp_raise [wps]: "wp (raise_p e) N E w = E e w" by (simp add: wp_def)
lemma wp_read [wps]: "wp (read_p f) N E w = N (f w) w" by (simp add: wp_def)
lemma wp_modify [wps]: "wp (modify_p f) N E w = N () (f w)" by (simp add: wp_def)
lemma wp_print [wps]: "wp (print_p s) N E w = N () w" by (simp add: wp_def)
lemma wp_bind [wps]: "wp (bind_p m f) N E w = wp m (\<lambda>x. wp (f x) N E) E w"
  by (simp add: wp_def bind_p_def split: prod.splits sum.splits)
lemma wp_then [wps]: "wp (then_p m n) N E w = wp m (\<lambda>x. wp n N E) E w"
  by (simp add: wp_def bind_p_def then_p_def split: prod.splits sum.splits)
lemma wp_try [wps]: "wp (try_except m h) N E w = wp m N (\<lambda>e. wp (h e) N E) w"
  by (simp add: wp_def try_except_def split: prod.splits sum.splits)
lemma wp_fw_call [wps]: "wp fw_call N E w =
   ((\<forall>e. next_fault (faults w) = Some e \<longrightarrow> E e (w\<lparr>faults := tl (faults w)\<rparr>)) \<and>
    (next_fault (faults w) = None \<longrightarrow> N () (w\<lparr>faults := tl (faults w)\<rparr>)))"
  by (auto simp add: wp_def fw_call_def split: option.splits)
lemma wp_if [wps]: "wp (if c then m else n) N E w =
   ((c \<longrightarrow> wp m N E w) \<and> (\<not> c \<longrightarrow> wp n N E w))"
  by simp
lemma wp_dict_setitem [wps]: "wp (dict_setitem d k v) N E w =
   ((\<forall>kvs. d = PDict kvs \<longrightarrow> N (PDict (AList.update k v kvs)) w) \<and>
   ((\<forall>kvs. d \<noteq> PDict kvs) \<longrightarrow> E (Exc ''TypeError'') w))"
  by (auto simp add: dict_setitem_def wp_def split: pyval.splits)
lemma wp_dict_getitem [wps]: "wp (dict_getitem d k) N E w =
   ((\<forall>kvs v. d = PDict kvs \<and> map_of kvs k = Some v \<longrightarrow> N v w) \<and>
   (\<forall>kvs. d = PDict kvs \<and> map_of kvs k = None \<longrightarrow> E (Exc ''KeyError'') w) \<and>
   ((\<forall>kvs. d \<noteq> PDict kvs) \<longrightarrow> E (Exc ''TypeError'') w))"
  by (auto simp add: dict_getitem_def wp_def split: pyval.splits option.splits)
lemma wp_get_site_path [wps]: "wp (get_site_path f) N E w =
   ((\<forall>e. next_fault (faults w) = Some e \<longrightarrow> E e (w\<lparr>faults := tl (faults w)\<rparr>)) \<and>
    (next_fault (faults w) = None \<longrightarrow> N (site_path w @ ''/'' @ f) (w\<lparr>faults := tl (faults w)\<rparr>)))"
  by (simp add: get_site_path_def wps)
lemma wp_os_path_exists [wps]: "wp (os_path_exists p) N E w =
   (N (files w p \<noteq> Absent) w)"
  by (simp add: os_path_exists_def wps)
lemma wp_json_load_file [wps]: "wp (json_load_file p) N E w =
   ((\<forall>e. next_fault (faults w) = Some e \<longrightarrow> E e (w\<lparr>faults := tl (faults w)\<rparr>)) \<and>
    (next_fault (faults w) = None \<longrightarrow>
       (files w p = Absent \<longrightarrow> E (Exc ''FileNotFoundError'') (w\<lparr>faults := tl (faults w)\<rparr>)) \<and>
       (files w p \<noteq> Absent \<longrightarrow>
          (\<forall>e. next_fault (tl (faults w)) = Some e \<longrightarrow> E e (w\<lparr>faults := tl (tl (faults w))\<rparr>)) \<and>
          (next_fault (tl (faults w)) = None \<longrightarrow>
             (files w p = Garbage \<longrightarrow> E (Exc ''JSONDecodeError'') (w\<lparr>faults := tl (tl (faults w))\<rparr>)) \<and>
             (\<forall>j. files w p = Content j \<longrightarrow> N j (w\<lparr>faults := tl (tl (faults w))\<rparr>))))))"
  by (cases "files w p") (auto simp add: json_load_file_def wps)
lemma wp_json_dump_file [wps]: "wp (json_dump_file p j) N E w =
   ((\<forall>e. next_fault (faults w) = Some e \<longrightarrow> E e (w\<lparr>faults := tl (faults w)\<rparr>)) \<and>
    (next_fault (faults w) = None \<longrightarrow>
       (\<forall>e. next_fault (tl (faults w)) = Some e \<longrightarrow>
           E e (w\<lparr>faults := tl (tl (faults w)), files := (files w)(p := Garbage)\<rparr>)) \<and>
       (next_fault (tl (faults w)) = None \<longrightarrow>
           N () (w\<lparr>faults := tl (tl (faults w)), files := (files w)(p := Content j)\<rparr>))))"
  by (cases w) (simp add: json_dump_file_def wps)
lemma wp_set_local_conf [wps]: "wp (set_local_conf k v) N E w =
   ((\<forall>e. next_fault (faults w) = Some e \<longrightarrow> E e (w\<lparr>faults := tl (faults w)\<rparr>)) \<and>
    (next_fault (faults w) = None \<longrightarrow>
       (local_conf w = None \<longrightarrow> E (Exc ''AttributeError'') (w\<lparr>faults := tl (faults w)\<rparr>)) \<and>
       (\<forall>kvs. local_conf w = Some kvs \<longrightarrow>
          N () (w\<lparr>faults := tl (faults w), local_conf := Some (AList.update k v kvs)\<rparr>))))"
  by (cases w; cases "local_conf w") (auto simp add: set_local_conf_def wps)

lemma no_fault_0 [simp]: "no_fault 0 fs" by (simp add: no_fault_def)
lemma no_fault_Suc: "no_fault (Suc n) fs = (next_fault fs = None \<and> no_fault n (tl fs))"
  by (cases fs) (auto simp: no_fault_def next_fault_def split: option.splits)

lemma wp_mono: "wp m N E w \<Longrightarrow> (\<And>x w'. N x w' \<Longrightarrow> N' x w') \<Longrightarrow> (\<And>e w'. E e w' \<Longrightarrow> E' e w') \<Longrightarrow> wp m N' E' w"
  by (auto simp: wp_def split: prod.splits sum.splits)
lemma wp_total: "wp m N (\<lambda>e w'. False) w \<Longrightarrow> \<exists>x w'. m w = (Inr x, w') \<and> N x w'"
  by (auto simp: wp_def split: prod.splits sum.splits)


lemma wp_db_exists [wps]: "wp (db_exists dt n) N E w =
   ((\<forall>e. next_fault (faults w) = Some e \<longrightarrow> E e (w\<lparr>faults := tl (faults w)\<rparr>)) \<and>
    (next_fault (faults w) = None \<longrightarrow> N (has_doc (db w) dt n) (w\<lparr>faults := tl (faults w)\<rparr>)))"
  by (simp add: db_exists_def wps)
lemma wp_get_doc [wps]: "wp (get_doc dt n) N E w =
   ((\<forall>e. next_fault (faults w) = Some e \<longrightarrow> E e (w\<lparr>faults := tl (faults w)\<rparr>)) \<and>
    (next_fault (faults w) = None \<longrightarrow>
       (find_doc (db w) dt n = None \<longrightarrow> E (Exc ''DoesNotExistError'') (w\<lparr>faults := tl (faults w)\<rparr>)) \<and>
       (\<forall>d. find_doc (db w) dt n = Some d \<longrightarrow> N d (w\<lparr>faults := tl (faults w)\<rparr>))))"
  by (cases "find_doc (db w) dt n") (auto simp add: get_doc_def wps)
lemma wp_save_doc [wps]: "wp (save_doc d) N E w =
   ((\<forall>e. next_fault (faults w) = Some e \<longrightarrow>
        E e (w\<lparr>faults := tl (faults w), calls := calls w @ [CSave (doc_type d) (doc_name d)]\<rparr>)) \<and>
    (next_fault (faults w) = None \<longrightarrow>
       (has_doc (db w) (doc_type d) (doc_name d) \<longrightarrow>
          N () (w\<lparr>faults := tl (faults w), calls := calls w @ [CSave (doc_type d) (doc_name d)],
                 db := put_doc d (db w)\<rparr>)) \<and>
       (\<not> has_doc (db w) (doc_type d) (doc_name d) \<longrightarrow>
          E (Exc ''DoesNotExistError'')
            (w\<lparr>faults := tl (faults w), calls := calls w @ [CSave (doc_type d) (doc_name d)]\<rparr>))))"
  by (cases w) (simp add: save_doc_def wps)


lemma wp_get_all [wps]: "wp (get_all dt limit) N E w =
   ((\<forall>e. next_fault (faults w) = Some e \<longrightarrow> E e (w\<lparr>faults := tl (faults w)\<rparr>)) \<and>
    (next_fault (faults w) = None \<longrightarrow>
       N (take limit (filter (\<lambda>d. doc_type d = dt) (db w))) (w\<lparr>faults := tl (faults w)\<rparr>)))"
  by (simp add: get_all_def wps)
lemma wp_db_get_value [wps]: "wp (db_get_value dt filters fieldname) N E w =
   ((\<forall>e. next_fault (faults w) = Some e \<longrightarrow> E e (w\<lparr>faults := tl (faults w)\<rparr>)) \<and>
    (next_fault (faults w) = None \<longrightarrow>
       N (case find (\<lambda>d. doc_type d = dt \<and> matches filters d) (db w) of
            None \<Rightarrow> PNone | Some d \<Rightarrow> getattr d fieldname) (w\<lparr>faults := tl (faults w)\<rparr>)))"
  by (simp add: db_get_value_def wps)
lemma wp_db_get_value_by_name [wps]: "wp (db_get_value_by_name dt n fieldname) N E w =
   ((\<forall>e. next_fault (faults w) = Some e \<longrightarrow> E e (w\<lparr>faults := tl (faults w)\<rparr>)) \<and>
    (next_fault (faults w) = None \<longrightarrow>
       N (case find_doc (db w) dt n of None \<Rightarrow> PNone | Some d \<Rightarrow> getattr d fieldname)
         (w\<lparr>faults := tl (faults w)\<rparr>)))"
  by (simp add: db_get_value_by_name_def wps)
lemma wp_db_exists_has_role [wps]: "wp (db_exists_has_role parent role_name) N E w =
   ((\<forall>e. next_fault (faults w) = Some e \<longrightarrow> E e (w\<lparr>faults := tl (faults w)\<rparr>)) \<and>
    (next_fault (faults w) = None \<longrightarrow>
       N (case find_doc (db w) ''User'' parent of
            None \<Rightarrow> False
          | Some u \<Rightarrow>
              list_ex (\<lambda>row. case row of
                          PDict kvs \<Rightarrow> map_of kvs ''role'' = Some (PStr role_name)
                        | _ \<Rightarrow> False)
                (rows_of (getattr u ''roles''))) (w\<lparr>faults := tl (faults w)\<rparr>)))"
  by (simp add: db_exists_has_role_def wps)
lemma wp_insert_doc [wps]: "wp (insert_doc d) N E w =
   ((\<forall>e. next_fault (faults w) = Some e \<longrightarrow>
        E e (w\<lparr>faults := tl (faults w), calls := calls w @ [CInsert (doc_type d)]\<rparr>)) \<and>
    (next_fault (faults w) = None \<longrightarrow>
       (has_doc (db w) (doc_type d) (naming w (db w) d) \<longrightarrow>
          E DuplicateEntryError
            (w\<lparr>faults := tl (faults w), calls := calls w @ [CInsert (doc_type d)]\<rparr>)) \<and>
       (\<not> has_doc (db w) (doc_type d) (naming w (db w) d) \<longrightarrow>
          N (d\<lparr>doc_name := naming w (db w) d\<rparr>)
            (w\<lparr>faults := tl (faults w), calls := calls w @ [CInsert (doc_type d)],
               db := db w @ [d\<lparr>doc_name := naming w (db w) d\<rparr>]\<rparr>))))"
  by (cases w) (simp add: insert_doc_def wps)
lemma wp_submit_doc [wps]: "wp (submit_doc d) N E w =
   ((\<forall>e. next_fault (faults w) = Some e \<longrightarrow>
        E e (w\<lparr>faults := tl (faults w), calls := calls w @ [CSubmit (doc_type d)]\<rparr>)) \<and>
    (next_fault (faults w) = None \<longrightarrow>
       N () (w\<lparr>faults := tl (faults w), calls := calls w @ [CSubmit (doc_type d)],
              db := put_doc (setattr d ''docstatus'' (PInt 1)) (db w)\<rparr>)))"
  by (cases w) (simp add: submit_doc_def wps)
lemma wp_db_set_value [wps]: "wp (db_set_value dt n fieldname v) N E w =
   ((\<forall>e. next_fault (faults w) = Some e \<longrightarrow>
        E e (w\<lparr>faults := tl (faults w), calls := calls w @ [CSetValue dt n fieldname]\<rparr>)) \<and>
    (next_fault (faults w) = None \<longrightarrow>
       N () (w\<lparr>faults := tl (faults w), calls := calls w @ [CSetValue dt n fieldname],
              db := map (\<lambda>x. if doc_type x = dt \<and> doc_name x = n
                              then setattr x fieldname v else x) (db w)\<rparr>)))"
  by (cases w) (simp add: db_set_value_def wps)
lemma wp_db_commit [wps]: "wp db_commit N E w =
   ((\<forall>e. next_fault (faults w) = Some e \<longrightarrow>
        E e (w\<lparr>faults := tl (faults w), calls := calls w @ [CCommit]\<rparr>)) \<and>
    (next_fault (faults w) = None \<longrightarrow>
       N () (w\<lparr>faults := tl (faults w), calls := calls w @ [CCommit], committed := db w\<rparr>)))"
  by (cases w) (simp add: db_commit_def wps)
lemma wp_db_rollback [wps]: "wp db_rollback N E w =
   (N () (w\<lparr>calls := calls w @ [CRollback], db := committed w\<rparr>))"
  by (simp add: db_rollback_def wps)
lemma wp_get_url [wps]: "wp get_url N E w =
   ((\<forall>e. next_fault (faults w) = Some e \<longrightarrow> E e (w\<lparr>faults := tl (faults w)\<rparr>)) \<and>
    (next_fault (faults w) = None \<longrightarrow> N (site_url w) (w\<lparr>faults := tl (faults w)\<rparr>)))"
  by (simp add: get_url_def wps)
lemma wp_get_bench_path [wps]: "wp get_bench_path N E w =
   ((\<forall>e. next_fault (faults w) = Some e \<longrightarrow> E e (w\<lparr>faults := tl (faults w)\<rparr>)) \<and>
    (next_fault (faults w) = None \<longrightarrow> N (bench_path w) (w\<lparr>faults := tl (faults w)\<rparr>)))"
  by (simp add: get_bench_path_def wps)
lemma wp_log [wps]:
  "wp (log_info s) N E w = N () w" "wp (log_error s) N E w = N () w"
  "wp (log_success s) N E w = N () w"
  by (simp_all add: log_info_def log_error_def log_success_def wps)
lemma wp_py_prefix [wps]: "wp (py_prefix v n) N E w =
   ((\<forall>s. v = PStr s \<longrightarrow> N (PStr (take n s)) w) \<and>
    (\<forall>xs. v = PList xs \<longrightarrow> N (PList (take n xs)) w) \<and>
    ((\<forall>s. v \<noteq> PStr s) \<and> (\<forall>xs. v \<noteq> PList xs) \<longrightarrow> E (Exc ''TypeError'') w))"
  by (auto simp add: py_prefix_def wps split: pyval.splits)
lemma wp_prod [wps]: "wp (case p of (a, b) \<Rightarrow> f a b) N E w = wp (f (fst p) (snd p)) N E w"
  by (simp add: case_prod_beta)
lemma wp_let [wps]: "wp (let x = v in f x) N E w = wp (f v) N E w"
  by simp

text \<open>A program whose text is not looked into: what it can return is all that is known.\<close>

lemma wp_opaque: "wp m N E w =
    ((\<forall>x w'. m w = (Inr x, w') \<longrightarrow> N x w') \<and> (\<forall>e w'. m w = (Inl e, w') \<longrightarrow> E e w'))"
  by (auto simp: wp_def split: prod.splits sum.splits)
lemma wp_True [simp]: "wp m (\<lambda>x w'. True) (\<lambda>e w'. True) w"
  by (auto simp: wp_def split: prod.splits sum.splits)
lemma wpD_Inr: "wp m N E w \<Longrightarrow> m w = (Inr x, w') \<Longrightarrow> N x w'" by (simp add: wp_def)
lemma wpD_Inl: "wp m N E w \<Longrightarrow> m w = (Inl e, w') \<Longrightarrow> E e w'" by (simp add: wp_def)


section \<open>Generated credentials\<close>

lemma secrets_choice_app:
  "xs \<noteq> [] \<Longrightarrow> secrets_choice xs w = (Inr (xs ! (rng w (drawn w) mod length xs)), w\<lparr>drawn := Suc (drawn w)\<rparr>)"
  by (simp add: secrets_choice_def run)

lemma join_choices_run:
  "xs \<noteq> [] \<Longrightarrow> \<exists>s. join_choices xs n w = (Inr s, w\<lparr>drawn := drawn w + n\<rparr>) \<and> length s = n \<and> set s \<subseteq> set xs"
proof (induction n arbitrary: w)
  case 0
  then show ?case by simp
next
  case (Suc n)
  from Suc.IH[OF Suc.prems, of "w\<lparr>drawn := Suc (drawn w)\<rparr>"]
  obtain s where s: "join_choices xs n (w\<lparr>drawn := Suc (drawn w)\<rparr>) = (Inr s, w\<lparr>drawn := Suc (drawn w) + n\<rparr>)"
     "length s = n" "set s \<subseteq> set xs" by auto
  have "xs ! (rng w (drawn w) mod length xs) \<in> set xs" using Suc.prems by simp
  with s show ?case using Suc.prems by (simp add: run secrets_choice_app)
qed

lemma alphabet_alnum: "list_all is_ascii_alnum (ascii_letters @ digits)"
  by (simp add: ascii_letters_def ascii_lowercase_def ascii_uppercase_def digits_def is_ascii_alnum_def)

text \<open>
  Claim C2. Whatever the random source draws, \<open>generate_api_key\<close> returns a string of
  exactly 20 characters and \<open>generate_api_secret\<close> one of exactly 40 characters, and
  every character of either is an ASCII letter or digit.
\<close>

theorem generated_credentials_shape:
  "(\<exists>k w'. generate_api_key w = (Inr k, w') \<and> length k = 20 \<and> list_all is_ascii_alnum k) \<and>
   (\<exists>s w'. generate_api_secret w = (Inr s, w') \<and> length s = 40 \<and> list_all is_ascii_alnum s)"
proof -
  have ne: "ascii_letters @ digits \<noteq> []" by (simp add: digits_def)
  have sub: "\<And>s. set s \<subseteq> set (ascii_letters @ digits) \<Longrightarrow> list_all is_ascii_alnum s"
    using alphabet_alnum unfolding list_all_iff by blast
  from join_choices_run[OF ne, of 20 w] join_choices_run[OF ne, of 40 w] sub
  show ?thesis unfolding generate_api_key_def generate_api_secret_def by blast
qed


section \<open>The static CORS headers\<close>


section \<open>The configuration file\<close>


text \<open>
  Claim C5. On an existing \<^verbatim>\<open>site_config.json\<close>, a run of \<open>configure_api_settings\<close>
  succeeds exactly when the file is a JSON object and the five calls that locate, read
  and write it do not fail; it then returns \<open>True\<close> and the \<open>api_settings\<close> key of the
  written file maps to exactly the four entries \<open>enable_api = 1\<close>,
  \<open>allow_api_key_authentication = 1\<close>, \<open>rate_limit\<close> and \<open>rate_limit_window\<close>,
  whatever \<open>api_settings\<close> held before.
\<close>

theorem configure_api_settings_writes:
  assumes "files w (site_path w @ ''/site_config.json'') \<noteq> Absent"
  shows "\<exists>b w'. configure_api_settings rate_limit rate_limit_window w = (Inr b, w') \<and>
     (b \<longleftrightarrow> (\<exists>cfg. files w (site_path w @ ''/site_config.json'') = Content (PDict cfg)) \<and> no_fault 5 (faults w)) \<and>
     (b \<longrightarrow> (\<exists>cfg. files w' (site_path w @ ''/site_config.json'') = Content (PDict cfg) \<and>
                map_of cfg ''api_settings'' =
                  Some (PDict [(''enable_api'', PInt 1), (''allow_api_key_authentication'', PInt 1),
                               (''rate_limit'', PInt rate_limit), (''rate_limit_window'', PInt rate_limit_window)])))"
  apply (rule wp_total)
  unfolding configure_api_settings_def
  using assms
  by (simp add: wps eval_nat_numeral no_fault_Suc update_conv' api_settings_dict_def; auto)




theorem configure_api_settings_writes_witness:
  "files sample_site ''./site1/site_config.json'' \<noteq> Absent \<and>
   (\<exists>w' cfg. configure_api_settings 1000 3600 sample_site = (Inr True, w') \<and>
      files w' ''./site1/site_config.json'' = Content (PDict cfg) \<and>
      map_of cfg ''api_settings'' =
        Some (PDict [(''enable_api'', PInt 1), (''allow_api_key_authentication'', PInt 1),
                     (''rate_limit'', PInt 1000), (''rate_limit_window'', PInt 3600)]))"
proof -
  have h: "files sample_site (site_path sample_site @ ''/site_config.json'') \<noteq> Absent"
    by (simp add: sample_site_def)
  show ?thesis
    using configure_api_settings_writes[OF h, of 1000 3600]
    by (auto simp: sample_site_def sample_config_def no_fault_def)
qed


end
